theory Spec2Isabelle
  imports Main "HOL-Library.Multiset" "HOL-Library.Sublist" "HOL-Library.Monad_Syntax"
begin

section \<open>Conventions\<close>

text \<open>
  A Go \<^verbatim>\<open>string\<close> is modelled by the list of its code points, one \<^typ>\<open>char\<close> each: this is
  what \<^verbatim>\<open>[]rune(text)\<close> yields and what the regular expressions of the HTML pipeline step
  over. For ASCII text it is the byte string itself. A Go \<^verbatim>\<open>int\<close> is modelled by \<^typ>\<open>int\<close>:
  the only arithmetic the renderers do on one is \<^verbatim>\<open>s.Offset + s.Length\<close> and the list counter's
  increment. Go's sum wraps at 64 bits and the model's does not, so the two differ on a
  range whose offset and length add up to a number outside the 64-bit range; no statement
  below depends on the value of such a sum.
  A nil pointer is \<^const>\<open>None\<close>; a Go map is a partial function.
\<close>

section \<open>Data model\<close>

record InlineStyleRange =
  Offset :: int
  Length :: int
  Style :: string

record EntityRange =
  erKey :: int
  erOffset :: int
  erLength :: int

record Block =
  Key :: string
  Text :: string
  Type :: string
  InlineStyleRanges :: "InlineStyleRange list"
  EntityRanges :: "EntityRange list"

record EntityMediaRef =
  LocalMediaID :: string
  refMediaID :: string

record EntityData =
  EntityKey :: string
  MediaItems :: "EntityMediaRef list"
  URL :: string

record EntityValue =
  evType :: string
  Mutability :: string
  Data :: EntityData

text \<open>\<^verbatim>\<open>FlexInt\<close> is \<^verbatim>\<open>int\<close> under another name; \<open>emKey\<close> holds the decoded key.\<close>

record EntityMapItem =
  emKey :: int
  Value :: EntityValue

record ArticleContent =
  Blocks :: "Block list"
  EntityMap :: "EntityMapItem list"

record MediaInfo =
  TypeName :: string
  OriginalImgURL :: string
  OriginalImgWidth :: int
  OriginalImgHeight :: int

record ArticleMedia =
  ID :: string
  MediaKey :: string
  MediaID :: string
  MediaInfo :: "MediaInfo option"

section \<open>String helpers of the Go library\<close>

text \<open>\<^verbatim>\<open>unicode.IsSpace\<close> on the code points a \<^typ>\<open>char\<close> can hold (Latin-1).\<close>

definition isSpace :: "char \<Rightarrow> bool" where
  "isSpace c = (c \<in> set [CHR 0x09, CHR 0x0A, CHR 0x0B, CHR 0x0C, CHR 0x0D, CHR 0x20, CHR 0x85, CHR 0xA0])"

definition TrimSpace :: "string \<Rightarrow> string" where
  "TrimSpace s = rev (dropWhile isSpace (rev (dropWhile isSpace s)))"

text \<open>\<^verbatim>\<open>strings.Join(elems, sep)\<close>.\<close>

fun Join :: "string list \<Rightarrow> string \<Rightarrow> string" where
  "Join [] sep = []"
| "Join [x] sep = x"
| "Join (x # y # ys) sep = x @ sep @ Join (y # ys) sep"

text \<open>\<^verbatim>\<open>strings.Split(s, sep)\<close> for a separator of one character (the code only splits on
  the newline).\<close>

fun Split :: "string \<Rightarrow> char \<Rightarrow> string list" where
  "Split [] sep = [[]]"
| "Split (c # cs) sep =
     (if c = sep then [] # Split cs sep
      else (case Split cs sep of [] \<Rightarrow> [[c]] | l # ls \<Rightarrow> (c # l) # ls))"

text \<open>The verb \<^verbatim>\<open>%d\<close> of \<^verbatim>\<open>fmt.Sprintf\<close>: decimal digits, a minus sign before a negative
  number.\<close>

fun digits :: "nat \<Rightarrow> string" where
  "digits n =
     (if n < 10 then [''0123456789'' ! n]
      else digits (n div 10) @ [''0123456789'' ! (n mod 10)])"

definition itoa :: "int \<Rightarrow> string" where
  "itoa i = (if i < 0 then CHR ''-'' # digits (nat (- i)) else digits (nat i))"

section \<open>Inline styles\<close>

text \<open>The boundary event of \<^verbatim>\<open>applyInlineStyles\<close>.\<close>

record styleRange =
  pos :: int
  style :: string
  start :: bool

definition styleMarker :: "string \<Rightarrow> string" where
  "styleMarker s =
     (if s = ''Bold'' \<or> s = ''BOLD'' then ''**''
      else if s = ''Italic'' \<or> s = ''ITALIC'' then ''*''
      else if s = ''Code'' \<or> s = ''CODE'' then ''`''
      else [])"

text \<open>The first loop: two events per range, the end clamped to \<open>n\<close> from above only. The
  offset is not clamped, and an end below 0 is not.\<close>

fun collectEvents :: "int \<Rightarrow> InlineStyleRange list \<Rightarrow> styleRange list" where
  "collectEvents n [] = []"
| "collectEvents n (s # ss) =
     (let end = Offset s + Length s;
          end = (if end > n then n else end)
      in \<lparr>pos = Offset s, style = Style s, start = True\<rparr>
         # \<lparr>pos = end, style = Style s, start = False\<rparr>
         # collectEvents n ss)"

text \<open>The comparison closure handed to \<^verbatim>\<open>sort.Slice\<close>.\<close>

definition eventLess :: "styleRange \<Rightarrow> styleRange \<Rightarrow> bool" where
  "eventLess a b =
     (if pos a \<noteq> pos b then pos a < pos b
      else if start a \<noteq> start b then \<not> start a
      else False)"

text \<open>
  \<^verbatim>\<open>sort.Slice\<close> is the Go library's. On a short slice (at most 12 elements since
  Go 1.19) it runs the insertion sort below: each element is swapped leftwards while it is
  less than its left neighbour. On a longer slice it runs a quicksort that need not keep
  the elements that compare equal in their order. The sorted prefix is held in reverse, so
  that its head is the left neighbour. The lemmas on the sweep further down are stated for
  every list that is sorted by position, whatever the order of the elements that compare
  equal.
\<close>

fun bubble :: "styleRange \<Rightarrow> styleRange list \<Rightarrow> styleRange list" where
  "bubble x [] = [x]"
| "bubble x (y # ys) = (if eventLess x y then y # bubble x ys else x # y # ys)"

definition sortSlice :: "styleRange list \<Rightarrow> styleRange list" where
  "sortSlice evs = rev (foldl (\<lambda>acc x. bubble x acc) [] evs)"

text \<open>
  The second loop. \<open>es\<close> is \<^verbatim>\<open>events[eventIdx:]\<close>, the text argument is \<^verbatim>\<open>runes[pos:]\<close>, so
  \<^verbatim>\<open>pos < n\<close> holds exactly when it is not empty. \<open>emitEvents\<close> is the inner loop: it
  returns what it wrote and the events it left.
\<close>

fun emitEvents :: "int \<Rightarrow> styleRange list \<Rightarrow> string \<times> styleRange list" where
  "emitEvents p [] = ([], [])"
| "emitEvents p (e # es) =
     (if pos e = p
      then (let (out, rest) = emitEvents p es in (styleMarker (style e) @ out, rest))
      else ([], e # es))"

fun sweep :: "int \<Rightarrow> styleRange list \<Rightarrow> string \<Rightarrow> string" where
  "sweep p es [] = fst (emitEvents p es)"
| "sweep p es (c # cs) =
     (let (out, rest) = emitEvents p es in out @ c # sweep (p + 1) rest cs)"

definition applyInlineStyles :: "string \<Rightarrow> InlineStyleRange list \<Rightarrow> string" where
  "applyInlineStyles text styles =
     (if length styles = 0 then text
      else sweep 0 (sortSlice (collectEvents (int (length text)) styles)) text)"

section \<open>Entities and media\<close>

text \<open>The lookup is a Go map filled by assignment in list order.\<close>

fun buildMediaLookup_from :: "(string \<rightharpoonup> string) \<Rightarrow> ArticleMedia list \<Rightarrow> (string \<rightharpoonup> string)" where
  "buildMediaLookup_from lookup [] = lookup"
| "buildMediaLookup_from lookup (e # es) =
     (case MediaInfo e of
        None \<Rightarrow> buildMediaLookup_from lookup es
      | Some info \<Rightarrow>
          if OriginalImgURL info \<noteq> []
          then buildMediaLookup_from (lookup(MediaID e \<mapsto> OriginalImgURL info)) es
          else buildMediaLookup_from lookup es)"

definition buildMediaLookup :: "ArticleMedia list \<Rightarrow> (string \<rightharpoonup> string)" where
  "buildMediaLookup entities = buildMediaLookup_from Map.empty entities"

fun buildEntityLookup_from :: "(int \<rightharpoonup> EntityValue) \<Rightarrow> EntityMapItem list \<Rightarrow> (int \<rightharpoonup> EntityValue)" where
  "buildEntityLookup_from lookup [] = lookup"
| "buildEntityLookup_from lookup (item # items) =
     buildEntityLookup_from (lookup(emKey item \<mapsto> Value item)) items"

fun mediaImages :: "EntityMediaRef list \<Rightarrow> (string \<rightharpoonup> string) \<Rightarrow> string list" where
  "mediaImages [] mediaLookup = []"
| "mediaImages (ref # refs) mediaLookup =
     (case mediaLookup (refMediaID ref) of
        Some url \<Rightarrow> (''![image]('' @ url @ '')'') # mediaImages refs mediaLookup
      | None \<Rightarrow> mediaImages refs mediaLookup)"

definition renderMediaEntity :: "EntityValue \<Rightarrow> (string \<rightharpoonup> string) \<Rightarrow> string" where
  "renderMediaEntity entity mediaLookup =
     Join (mediaImages (MediaItems (Data entity)) mediaLookup) [CHR 0x0A, CHR 0x0A]"

fun scanEntityRanges ::
  "EntityRange list \<Rightarrow> (int \<rightharpoonup> EntityValue) \<Rightarrow> (string \<rightharpoonup> string) \<Rightarrow> string" where
  "scanEntityRanges [] entityLookup mediaLookup = []"
| "scanEntityRanges (er # ers) entityLookup mediaLookup =
     (case entityLookup (erKey er) of
        None \<Rightarrow> scanEntityRanges ers entityLookup mediaLookup
      | Some entity \<Rightarrow>
          if evType entity = ''MEDIA'' then renderMediaEntity entity mediaLookup
          else if evType entity = ''DIVIDER'' then ''---''
          else scanEntityRanges ers entityLookup mediaLookup)"

definition renderAtomicBlock ::
  "Block \<Rightarrow> (int \<rightharpoonup> EntityValue) \<Rightarrow> (string \<rightharpoonup> string) \<Rightarrow> string" where
  "renderAtomicBlock block entityLookup mediaLookup =
     scanEntityRanges (EntityRanges block) entityLookup mediaLookup"

section \<open>The block renderer\<close>

text \<open>One turn of the loop over the blocks: the state is \<^verbatim>\<open>parts\<close> and \<^verbatim>\<open>olCounter\<close>.\<close>

definition renderBlock ::
  "(int \<rightharpoonup> EntityValue) \<Rightarrow> (string \<rightharpoonup> string) \<Rightarrow> string list \<times> int \<Rightarrow> Block
     \<Rightarrow> string list \<times> int" where
  "renderBlock entityLookup mediaLookup st block =
     (let parts = fst st; olCounter = snd st;
          styled = applyInlineStyles (Text block) (InlineStyleRanges block)
      in if Type block = ''header-one'' then (parts @ [''# '' @ styled], 0)
         else if Type block = ''header-two'' then (parts @ [''## '' @ styled], 0)
         else if Type block = ''header-three'' then (parts @ [''### '' @ styled], 0)
         else if Type block = ''header-four'' then (parts @ [''#### '' @ styled], 0)
         else if Type block = ''header-five'' then (parts @ [''##### '' @ styled], 0)
         else if Type block = ''header-six'' then (parts @ [''###### '' @ styled], 0)
         else if Type block = ''blockquote''
           then (parts @ [Join (map (\<lambda>line. ''> '' @ line) (Split styled (CHR 0x0A))) [CHR 0x0A]], 0)
         else if Type block = ''unordered-list-item'' then (parts @ [''- '' @ styled], 0)
         else if Type block = ''ordered-list-item''
           then (parts @ [itoa (olCounter + 1) @ ''. '' @ styled], olCounter + 1)
         else if Type block = ''code-block''
           then (parts @ [''```'' @ [CHR 0x0A] @ Text block @ [CHR 0x0A] @ ''```''], 0)
         else if Type block = ''atomic''
           then (let rendered = renderAtomicBlock block entityLookup mediaLookup
                 in if rendered \<noteq> [] then (parts @ [rendered], 0) else (parts, 0))
         else if TrimSpace (Text block) = [] then (parts @ [[]], 0)
         else (parts @ [styled], 0))"

definition renderBlocks ::
  "(int \<rightharpoonup> EntityValue) \<Rightarrow> (string \<rightharpoonup> string) \<Rightarrow> Block list \<Rightarrow> string list \<times> int" where
  "renderBlocks entityLookup mediaLookup blocks =
     foldl (renderBlock entityLookup mediaLookup) ([], 0) blocks"

definition DraftJSToMarkdown :: "ArticleContent option \<Rightarrow> ArticleMedia list \<Rightarrow> string" where
  "DraftJSToMarkdown content mediaEntities =
     (case content of
        None \<Rightarrow> []
      | Some c \<Rightarrow>
          if length (Blocks c) = 0 then []
          else (let mediaLookup = buildMediaLookup mediaEntities;
                    entityLookup = buildEntityLookup_from Map.empty (EntityMap c);
                    parts = fst (renderBlocks entityLookup mediaLookup (Blocks c))
                in TrimSpace (Join parts [CHR 0x0A, CHR 0x0A])))"

section \<open>Entity-map keys\<close>

text \<open>
  \<^verbatim>\<open>FlexInt.UnmarshalJSON\<close> hands its input to \<^verbatim>\<open>json.Unmarshal\<close> twice and to
  \<^verbatim>\<open>strconv.Atoi\<close>, all three of the Go library. The input is modelled by the JSON value
  its bytes spell: a number keeps its literal (whether it is an integer, and one that fits,
  is decided by \<^verbatim>\<open>strconv.ParseInt\<close> on the literal), a string holds its decoded text,
  \<open>JInvalid\<close> stands for bytes that are not JSON.
\<close>

datatype json = JNull | JBool bool | JNumber string | JString string | JArray | JObject | JInvalid

definition digitValue :: "char \<Rightarrow> nat option" where
  "digitValue c =
     map_of [(CHR ''0'', 0), (CHR ''1'', 1), (CHR ''2'', 2), (CHR ''3'', 3), (CHR ''4'', 4),
             (CHR ''5'', 5), (CHR ''6'', 6), (CHR ''7'', 7), (CHR ''8'', 8), (CHR ''9'', 9)] c"

fun decimal :: "nat \<Rightarrow> string \<Rightarrow> nat option" where
  "decimal acc [] = Some acc"
| "decimal acc (c # cs) =
     (case digitValue c of None \<Rightarrow> None | Some d \<Rightarrow> decimal (10 * acc + d) cs)"

text \<open>\<^verbatim>\<open>strconv.ParseInt(s, 10, 64)\<close>: an optional sign, at least one decimal digit, a value
  of 64 bits. \<^verbatim>\<open>strconv.Atoi\<close> is the same function where \<^verbatim>\<open>int\<close> has 64 bits.\<close>

definition ParseInt :: "string \<Rightarrow> int option" where
  "ParseInt s =
     (let negative = (s \<noteq> [] \<and> hd s = CHR ''-'');
          ds = (if s \<noteq> [] \<and> (hd s = CHR ''+'' \<or> hd s = CHR ''-'') then tl s else s)
      in if ds = [] then None
         else (case decimal 0 ds of
                 None \<Rightarrow> None
               | Some n \<Rightarrow>
                   (let i = (if negative then - int n else int n)
                    in if - (2 ^ 63) \<le> i \<and> i < 2 ^ 63 then Some i else None)))"

definition Atoi :: "string \<Rightarrow> int option" where
  "Atoi s = ParseInt s"

text \<open>
  \<^verbatim>\<open>json.Unmarshal(data, &intVal)\<close> and \<^verbatim>\<open>json.Unmarshal(data, &strVal)\<close>, each into a
  variable that holds its zero value: \<open>Some\<close> is the variable afterwards when the error is
  nil. A JSON null has no effect on a number or a string and is no error.
\<close>

fun unmarshalInt :: "json \<Rightarrow> int option" where
  "unmarshalInt JNull = Some 0"
| "unmarshalInt (JNumber lit) = ParseInt lit"
| "unmarshalInt other = None"

fun unmarshalString :: "json \<Rightarrow> string option" where
  "unmarshalString JNull = Some []"
| "unmarshalString (JString s) = Some s"
| "unmarshalString other = None"

datatype flexError = CannotParse string | CannotUnmarshal json

text \<open>\<open>Inr n\<close>: \<^verbatim>\<open>*f\<close> is assigned \<open>n\<close> and nil is returned. \<open>Inl e\<close>: the error is returned and
  \<^verbatim>\<open>*f\<close> is left as it was.\<close>

definition UnmarshalJSON :: "json \<Rightarrow> flexError + int" where
  "UnmarshalJSON data =
     (case unmarshalInt data of
        Some intVal \<Rightarrow> Inr intVal
      | None \<Rightarrow>
          (case unmarshalString data of
             Some strVal \<Rightarrow>
               (case Atoi strVal of
                  None \<Rightarrow> Inl (CannotParse strVal)
                | Some n \<Rightarrow> Inr n)
           | None \<Rightarrow> Inl (CannotUnmarshal data)))"

section \<open>Regular expressions\<close>

text \<open>
  The patterns of the HTML pipeline are written in the syntax tree below, one item per
  token of the source pattern. Under the flag \<^verbatim>\<open>i\<close> a literal is \<open>LitI\<close>; every pattern with
  a dot carries the flag \<^verbatim>\<open>s\<close>, so the dot is \<open>AnyChar\<close>. Only single characters are starred
  in the source. \<open>match\<close> tries the alternatives in the order of Go's leftmost-first
  semantics: a greedy item the longer way first, a lazy one the shorter way first, the
  left branch of an alternation first.
\<close>

datatype cclass = AnyChar | NoneOf "char list" | OneOf "char list"

fun inClass :: "cclass \<Rightarrow> char \<Rightarrow> bool" where
  "inClass AnyChar c = True"
| "inClass (NoneOf cs) c = (c \<notin> set cs)"
| "inClass (OneOf cs) c = (c \<in> set cs)"

datatype re =
    Lit string
  | LitI string
  | One cclass
  | Many cclass
  | ManyLazy cclass
  | OneOrMore cclass
  | Maybe "re list"
  | Either "re list" "re list"
  | Open nat
  | Close nat

text \<open>The literals of the patterns are ASCII, and no other code point that a \<^typ>\<open>char\<close> holds
  folds to an ASCII letter.\<close>

definition toLower :: "char \<Rightarrow> char" where
  "toLower c =
     (case map_of (zip ''ABCDEFGHIJKLMNOPQRSTUVWXYZ'' ''abcdefghijklmnopqrstuvwxyz'') c of
        Some l \<Rightarrow> l | None \<Rightarrow> c)"

fun litPrefix :: "bool \<Rightarrow> string \<Rightarrow> string \<Rightarrow> string option" where
  "litPrefix ci [] inp = Some inp"
| "litPrefix ci (l # ls) [] = None"
| "litPrefix ci (l # ls) (c # cs) =
     (if c = l \<or> (ci \<and> toLower c = toLower l) then litPrefix ci ls cs else None)"

text \<open>An open group remembers the input at its start; closing it records the text between.\<close>

record captures =
  opened :: "(nat \<times> string) list"
  closed :: "(nat \<times> string) list"

definition openGroup :: "nat \<Rightarrow> string \<Rightarrow> captures \<Rightarrow> captures" where
  "openGroup n inp st = st\<lparr>opened := (n, inp) # opened st\<rparr>"

definition closeGroup :: "nat \<Rightarrow> string \<Rightarrow> captures \<Rightarrow> captures" where
  "closeGroup n inp st =
     (case map_of (opened st) n of
        None \<Rightarrow> st
      | Some begin_inp \<Rightarrow>
          st\<lparr>closed := (n, take (length begin_inp - length inp) begin_inp) # closed st\<rparr>)"

function match :: "re list \<Rightarrow> string \<Rightarrow> captures \<Rightarrow> (string \<times> captures) option" where
  "match [] inp st = Some (inp, st)"
| "match (Lit s # rs) inp st =
     (case litPrefix False s inp of None \<Rightarrow> None | Some rest \<Rightarrow> match rs rest st)"
| "match (LitI s # rs) inp st =
     (case litPrefix True s inp of None \<Rightarrow> None | Some rest \<Rightarrow> match rs rest st)"
| "match (One k # rs) inp st =
     (case inp of [] \<Rightarrow> None | c # cs \<Rightarrow> if inClass k c then match rs cs st else None)"
| "match (Many k # rs) inp st =
     (case inp of
        [] \<Rightarrow> match rs [] st
      | c # cs \<Rightarrow>
          if inClass k c
          then (case match (Many k # rs) cs st of
                  Some r \<Rightarrow> Some r
                | None \<Rightarrow> match rs (c # cs) st)
          else match rs (c # cs) st)"
| "match (ManyLazy k # rs) inp st =
     (case match rs inp st of
        Some r \<Rightarrow> Some r
      | None \<Rightarrow>
          (case inp of
             [] \<Rightarrow> None
           | c # cs \<Rightarrow> if inClass k c then match (ManyLazy k # rs) cs st else None))"
| "match (OneOrMore k # rs) inp st =
     (case inp of
        [] \<Rightarrow> None
      | c # cs \<Rightarrow> if inClass k c then match (Many k # rs) cs st else None)"
| "match (Maybe xs # rs) inp st =
     (case match (xs @ rs) inp st of Some r \<Rightarrow> Some r | None \<Rightarrow> match rs inp st)"
| "match (Either xs ys # rs) inp st =
     (case match (xs @ rs) inp st of Some r \<Rightarrow> Some r | None \<Rightarrow> match (ys @ rs) inp st)"
| "match (Open n # rs) inp st = match rs inp (openGroup n inp st)"
| "match (Close n # rs) inp st = match rs inp (closeGroup n inp st)"
  by pat_completeness auto
termination
  by (relation "measures [\<lambda>(rs, inp, st). size_list size rs, \<lambda>(rs, inp, st). length inp]")
    auto

fun numGroups :: "re list \<Rightarrow> nat" where
  "numGroups [] = 0"
| "numGroups (Open n # rs) = max n (numGroups rs)"
| "numGroups (Maybe xs # rs) = max (numGroups xs) (numGroups rs)"
| "numGroups (Either xs ys # rs) = max (max (numGroups xs) (numGroups ys)) (numGroups rs)"
| "numGroups (r # rs) = numGroups rs"

text \<open>The submatch slice: the whole match, then each group, empty when it took no part.\<close>

definition submatches :: "re list \<Rightarrow> string \<Rightarrow> captures \<Rightarrow> string list" where
  "submatches pat m st =
     m # map (\<lambda>n. case map_of (closed st) n of None \<Rightarrow> [] | Some g \<Rightarrow> g)
           [1..<Suc (numGroups pat)]"

text \<open>The leftmost match: the text skipped before it, its submatches, the text after it.\<close>

fun findMatch :: "re list \<Rightarrow> string \<Rightarrow> (string \<times> string list \<times> string) option" where
  "findMatch pat [] =
     (case match pat [] \<lparr>opened = [], closed = []\<rparr> of
        None \<Rightarrow> None
      | Some (rest, st) \<Rightarrow> Some ([], submatches pat [] st, rest))"
| "findMatch pat (c # cs) =
     (case match pat (c # cs) \<lparr>opened = [], closed = []\<rparr> of
        Some (rest, st) \<Rightarrow>
          Some ([], submatches pat (take (length (c # cs) - length rest) (c # cs)) st, rest)
      | None \<Rightarrow>
          (case findMatch pat cs of
             None \<Rightarrow> None
           | Some (skipped, sub, rest) \<Rightarrow> Some (c # skipped, sub, rest)))"

text \<open>\<^verbatim>\<open>FindStringSubmatch\<close> returns nil (\<open>None\<close>) when nothing matches.\<close>

definition FindStringSubmatch :: "re list \<Rightarrow> string \<Rightarrow> string list option" where
  "FindStringSubmatch pat s = map_option (\<lambda>(skipped, sub, rest). sub) (findMatch pat s)"

text \<open>
  The functions that walk over all matches go on behind each match. No pattern of the
  pipeline matches the empty string, so the text left is always shorter; the other branch
  only closes the recursion.
\<close>

function FindAllStringSubmatch :: "re list \<Rightarrow> string \<Rightarrow> string list list" where
  "FindAllStringSubmatch pat s =
     (case findMatch pat s of
        None \<Rightarrow> []
      | Some (skipped, sub, rest) \<Rightarrow>
          if length rest < length s then sub # FindAllStringSubmatch pat rest else [sub])"
  by pat_completeness auto
termination
  by (relation "measure (\<lambda>(pat, s). length s)") auto

text \<open>Indexing a slice out of range panics: \<open>None\<close> is the panic, here and in every function
  that returns an option below.\<close>

definition index :: "'a list \<Rightarrow> nat \<Rightarrow> 'a option" where
  "index xs i = (if i < length xs then Some (xs ! i) else None)"

function ReplaceAllStringFunc ::
  "re list \<Rightarrow> string \<Rightarrow> (string \<Rightarrow> string option) \<Rightarrow> string option" where
  "ReplaceAllStringFunc pat s repl =
     (case findMatch pat s of
        None \<Rightarrow> Some s
      | Some (skipped, sub, rest) \<Rightarrow>
          do {
            new \<leftarrow> repl (hd sub);
            if length rest < length s
            then do {
              more \<leftarrow> ReplaceAllStringFunc pat rest repl;
              Some (skipped @ new @ more)
            }
            else Some (skipped @ new @ rest)
          })"
  by pat_completeness auto
termination
  by (relation "measure (\<lambda>(pat, s, repl). length s)") auto

text \<open>A replacement template: text and \<^verbatim>\<open>$n\<close>.\<close>

datatype piece = Verbatim string | Submatch nat

fun expand :: "piece list \<Rightarrow> string list \<Rightarrow> string" where
  "expand [] sub = []"
| "expand (Verbatim s # ps) sub = s @ expand ps sub"
| "expand (Submatch n # ps) sub = (if n < length sub then sub ! n else []) @ expand ps sub"

function ReplaceAllString :: "re list \<Rightarrow> string \<Rightarrow> piece list \<Rightarrow> string" where
  "ReplaceAllString pat s tmpl =
     (case findMatch pat s of
        None \<Rightarrow> s
      | Some (skipped, sub, rest) \<Rightarrow>
          if length rest < length s
          then skipped @ expand tmpl sub @ ReplaceAllString pat rest tmpl
          else skipped @ expand tmpl sub @ rest)"
  by pat_completeness auto
termination
  by (relation "measure (\<lambda>(pat, s, tmpl). length s)") auto

text \<open>\<^verbatim>\<open>strings.ReplaceAll(s, old, new)\<close> for a non-empty \<open>old\<close>.\<close>

definition ReplaceAll :: "string \<Rightarrow> string \<Rightarrow> string \<Rightarrow> string" where
  "ReplaceAll s old new = ReplaceAllString [Lit old] s [Verbatim new]"

text \<open>
  \<^verbatim>\<open>html.UnescapeString\<close> copies the text up to each ampersand and decodes one entity
  there. The decoder and its table of entities belong to the Go library; it is the parameter
  \<open>unescapeEntity\<close>, which maps the input from the ampersand on to what it writes and the
  input it leaves. A text without an ampersand is returned as it is.
\<close>

function UnescapeString :: "(string \<Rightarrow> string \<times> string) \<Rightarrow> string \<Rightarrow> string" where
  "UnescapeString unescapeEntity s =
     (let before = takeWhile (\<lambda>c. c \<noteq> CHR ''&'') s;
          entity = dropWhile (\<lambda>c. c \<noteq> CHR ''&'') s
      in if entity = [] then s
         else (let dec = unescapeEntity entity
               in if length (snd dec) < length entity
                  then before @ fst dec @ UnescapeString unescapeEntity (snd dec)
                  else before @ fst dec @ snd dec))"
  by pat_completeness auto
termination
proof (relation "measure (\<lambda>(unescapeEntity, s). length s)")
  show "wf (measure (\<lambda>(unescapeEntity, s). length s))"
    by simp
next
  fix unescapeEntity :: "string \<Rightarrow> string \<times> string"
    and s entity :: string and dec :: "string \<times> string"
  assume "entity = dropWhile (\<lambda>c. c \<noteq> CHR ''&'') s" and "length (snd dec) < length entity"
  moreover have "length (dropWhile (\<lambda>c. c \<noteq> CHR ''&'') s) \<le> length s"
    by (rule length_dropWhile_le)
  ultimately show "((unescapeEntity, snd dec), unescapeEntity, s)
      \<in> measure (\<lambda>(unescapeEntity, s). length s)"
    by simp
qed
section \<open>The HTML pipeline\<close>

definition NL :: string where
  "NL = [CHR 0x0A]"

definition space :: cclass where
  "space = OneOf [CHR 0x09, CHR 0x0A, CHR 0x0C, CHR 0x0D, CHR 0x20]"

text \<open>The pattern \<^verbatim>\<open>(?is)<NAME[^>]*>(.*?)</NAME>\<close>, which the source compiles once for each
  of pre, h1 to h6, blockquote, ul, ol, li and p.\<close>

definition elementRe :: "string \<Rightarrow> re list" where
  "elementRe name =
     [LitI (''<'' @ name), Many (NoneOf ''>''), Lit ''>'', Open 1, ManyLazy AnyChar, Close 1,
      LitI (''</'' @ name @ ''>'')]"

definition tagRe :: "re list" where
  "tagRe = [Lit ''<'', Many (NoneOf ''>''), Lit ''>'']"

definition stripTags :: "string \<Rightarrow> string" where
  "stripTags s = ReplaceAllString tagRe s []"

definition preBlockRe :: "re list" where
  "preBlockRe = elementRe ''pre''"

definition codeInPreRe :: "re list" where
  \<open>codeInPreRe =
     [LitI ''<code'',
      Maybe [OneOrMore space, LitI ''class="language-'', Open 1, Many (NoneOf ''"''), Close 1,
             Lit ''"''],
      Many (NoneOf ''>''), Lit ''>'', Open 2, ManyLazy AnyChar, Close 2, LitI ''</code>'']\<close>

definition processPreBlocks :: "(string \<Rightarrow> string \<times> string) \<Rightarrow> string \<Rightarrow> string option" where
  "processPreBlocks unescapeEntity s =
     ReplaceAllStringFunc preBlockRe s (\<lambda>m.
       case FindStringSubmatch preBlockRe m of
         None \<Rightarrow> Some m
       | Some inner \<Rightarrow> do {
           content \<leftarrow> index inner 1;
           found \<leftarrow> (case FindStringSubmatch codeInPreRe content of
                      None \<Rightarrow> Some ([], content)
                    | Some cm \<Rightarrow> do {
                        lang \<leftarrow> index cm 1;
                        code \<leftarrow> index cm 2;
                        Some (lang, code)
                      });
           let content = UnescapeString unescapeEntity (snd found);
               content = stripTags content;
               content = TrimSpace content
           in Some (NL @ NL @ ''```'' @ fst found @ NL @ content @ NL @ ''```'' @ NL @ NL)
         })"

definition heading :: "string \<Rightarrow> string \<Rightarrow> string \<Rightarrow> string option" where
  "heading name hashes s =
     ReplaceAllStringFunc (elementRe name) s (\<lambda>m. do {
       sub \<leftarrow> FindStringSubmatch (elementRe name) m;
       g \<leftarrow> index sub 1;
       Some (NL @ NL @ hashes @ '' '' @ TrimSpace (stripTags g) @ NL @ NL)
     })"

definition processHeadings :: "string \<Rightarrow> string option" where
  "processHeadings s = do {
     s \<leftarrow> heading ''h1'' ''#'' s;
     s \<leftarrow> heading ''h2'' ''##'' s;
     s \<leftarrow> heading ''h3'' ''###'' s;
     s \<leftarrow> heading ''h4'' ''####'' s;
     s \<leftarrow> heading ''h5'' ''#####'' s;
     heading ''h6'' ''######'' s
   }"

definition blockquoteRe :: "re list" where
  "blockquoteRe = elementRe ''blockquote''"

definition processBlockquotes :: "string \<Rightarrow> string option" where
  "processBlockquotes s =
     ReplaceAllStringFunc blockquoteRe s (\<lambda>m. do {
       sub \<leftarrow> FindStringSubmatch blockquoteRe m;
       inner \<leftarrow> index sub 1;
       let inner = TrimSpace (stripTags inner);
           quoted = map (\<lambda>line. ''> '' @ TrimSpace line) (Split inner (CHR 0x0A))
       in Some (NL @ NL @ Join quoted NL @ NL @ NL)
     })"

definition ulRe :: "re list" where
  "ulRe = elementRe ''ul''"

definition olRe :: "re list" where
  "olRe = elementRe ''ol''"

definition liRe :: "re list" where
  "liRe = elementRe ''li''"

text \<open>The text of each list item; a bullet or the item's number goes before it.\<close>

definition itemTexts :: "string \<Rightarrow> string list option" where
  "itemTexts inner =
     those (map (\<lambda>item. map_option (\<lambda>g. TrimSpace (stripTags g)) (index item 1))
              (FindAllStringSubmatch liRe inner))"

definition processLists :: "string \<Rightarrow> string option" where
  "processLists s = do {
     s \<leftarrow> ReplaceAllStringFunc ulRe s (\<lambda>m. do {
            sub \<leftarrow> FindStringSubmatch ulRe m;
            inner \<leftarrow> index sub 1;
            texts \<leftarrow> itemTexts inner;
            Some (NL @ NL @ Join (map (\<lambda>t. ''- '' @ t) texts) NL @ NL @ NL)
          });
     ReplaceAllStringFunc olRe s (\<lambda>m. do {
       sub \<leftarrow> FindStringSubmatch olRe m;
       inner \<leftarrow> index sub 1;
       texts \<leftarrow> itemTexts inner;
       Some (NL @ NL
             @ Join (map (\<lambda>(i, t). itoa (int i + 1) @ ''. '' @ t) (enumerate 0 texts)) NL
             @ NL @ NL)
     })
   }"

definition pRe :: "re list" where
  "pRe = elementRe ''p''"

definition processParagraphs :: "string \<Rightarrow> string" where
  "processParagraphs s = ReplaceAllString pRe s [Verbatim (NL @ NL), Submatch 1, Verbatim (NL @ NL)]"

definition hrRe :: "re list" where
  "hrRe = [LitI ''<hr'', Many space, Maybe [Lit ''/''], Lit ''>'']"

definition processHorizontalRules :: "string \<Rightarrow> string" where
  "processHorizontalRules s = ReplaceAllString hrRe s [Verbatim (NL @ NL @ ''---'' @ NL @ NL)]"

definition linkRe :: "re list" where
  \<open>linkRe =
     [LitI ''<a'', One space, Many (NoneOf ''>''), LitI ''href="'', Open 1, Many (NoneOf ''"''),
      Close 1, Lit ''"'', Many (NoneOf ''>''), Lit ''>'', Open 2, ManyLazy AnyChar, Close 2,
      LitI ''</a>'']\<close>

definition processLinks :: "string \<Rightarrow> string option" where
  "processLinks s =
     ReplaceAllStringFunc linkRe s (\<lambda>m. do {
       parts \<leftarrow> FindStringSubmatch linkRe m;
       href \<leftarrow> index parts 1;
       inner \<leftarrow> index parts 2;
       let text = TrimSpace (stripTags inner);
           text = (if text = [] then href else text)
       in Some (''['' @ text @ '']('' @ href @ '')'')
     })"

definition imgRe :: "re list" where
  \<open>imgRe =
     [LitI ''<img'', One space, Many (NoneOf ''>''), LitI ''src="'', Open 1, Many (NoneOf ''"''),
      Close 1, Lit ''"'', Many (NoneOf ''>''),
      Maybe [LitI ''alt="'', Open 2, Many (NoneOf ''"''), Close 2, Lit ''"''],
      Many (NoneOf ''>''), Maybe [Lit ''/''], Lit ''>'']\<close>

definition processImages :: "string \<Rightarrow> string option" where
  "processImages s =
     ReplaceAllStringFunc imgRe s (\<lambda>m. do {
       parts \<leftarrow> FindStringSubmatch imgRe m;
       src \<leftarrow> index parts 1;
       alt \<leftarrow> (if length parts > 2 then index parts 2 else Some []);
       Some (''!['' @ alt @ '']('' @ src @ '')'')
     })"

definition boldRe :: "re list" where
  "boldRe =
     [Lit ''<'', Either [LitI ''strong''] [LitI ''b''], Lit ''>'', Open 1, ManyLazy AnyChar, Close 1,
      Lit ''</'', Either [LitI ''strong''] [LitI ''b''], Lit ''>'']"

definition processBold :: "string \<Rightarrow> string" where
  "processBold s = ReplaceAllString boldRe s [Verbatim ''**'', Submatch 1, Verbatim ''**'']"

definition italicRe :: "re list" where
  "italicRe =
     [Lit ''<'', Either [LitI ''em''] [LitI ''i''], Lit ''>'', Open 1, ManyLazy AnyChar, Close 1,
      Lit ''</'', Either [LitI ''em''] [LitI ''i''], Lit ''>'']"

definition processItalic :: "string \<Rightarrow> string" where
  "processItalic s = ReplaceAllString italicRe s [Verbatim ''*'', Submatch 1, Verbatim ''*'']"

definition inlineCodeRe :: "re list" where
  "inlineCodeRe = [LitI ''<code>'', Open 1, ManyLazy AnyChar, Close 1, LitI ''</code>'']"

definition processInlineCode :: "string \<Rightarrow> string" where
  "processInlineCode s = ReplaceAllString inlineCodeRe s [Verbatim ''`'', Submatch 1, Verbatim ''`'']"

definition brRe :: "re list" where
  "brRe = [LitI ''<br'', Many space, Maybe [Lit ''/''], Lit ''>'']"

definition processLineBreaks :: "string \<Rightarrow> string" where
  "processLineBreaks s = ReplaceAllString brRe s [Verbatim NL]"

definition multiNewlineRe :: "re list" where
  "multiNewlineRe = [Lit NL, Lit NL, OneOrMore (OneOf NL)]"

definition trailingSpaceRe :: "re list" where
  "trailingSpaceRe = [OneOrMore (OneOf [CHR 0x20, CHR 0x09]), Lit NL]"

definition cleanWhitespace :: "string \<Rightarrow> string" where
  "cleanWhitespace s =
     (let s = ReplaceAllString trailingSpaceRe s [Verbatim NL]
      in ReplaceAllString multiNewlineRe s [Verbatim (NL @ NL)])"

definition HTMLToMarkdown :: "(string \<Rightarrow> string \<times> string) \<Rightarrow> string \<Rightarrow> string option" where
  "HTMLToMarkdown unescapeEntity htmlStr = do {
     let s = ReplaceAll htmlStr [CHR 0x0D, CHR 0x0A] NL;
     let s = ReplaceAll s [CHR 0x0D] NL;
     s \<leftarrow> processPreBlocks unescapeEntity s;
     s \<leftarrow> processHeadings s;
     s \<leftarrow> processBlockquotes s;
     s \<leftarrow> processLists s;
     let s = processParagraphs s;
     let s = processHorizontalRules s;
     s \<leftarrow> processLinks s;
     s \<leftarrow> processImages s;
     let s = processBold s;
     let s = processItalic s;
     let s = processInlineCode s;
     let s = processLineBreaks s;
     let s = stripTags s;
     let s = UnescapeString unescapeEntity s;
     let s = cleanWhitespace s;
     Some (TrimSpace s)
   }"

section \<open>Notions used in the statements\<close>

text \<open>
  \<open>inserted ms t out\<close>: the string \<open>out\<close> is the text \<open>t\<close> with the strings \<open>ms\<close> put in,
  in this order, at some places; deleting them from \<open>out\<close> there gives \<open>t\<close> back.
\<close>

inductive inserted :: "string list \<Rightarrow> string \<Rightarrow> string \<Rightarrow> bool" where
  inserted_end: "inserted [] [] []"
| inserted_rune: "inserted ms t out \<Longrightarrow> inserted ms (c # t) (c # out)"
| inserted_marker: "inserted ms t out \<Longrightarrow> inserted (m # ms) t (m @ out)"

code_pred inserted .


text \<open>The marker of each event, in the order of the events.\<close>

definition markers :: "styleRange list \<Rightarrow> string list" where
  "markers evs = map (\<lambda>e. styleMarker (style e)) evs"

definition isOrderedItem :: "Block \<Rightarrow> bool" where
  "isOrderedItem b = (Type b = ''ordered-list-item'')"

text \<open>Sample data for the concrete cases.\<close>

definition orderedItem :: "string \<Rightarrow> Block" where
  "orderedItem t =
     \<lparr>Key = [], Text = t, Type = ''ordered-list-item'', InlineStyleRanges = [],
      EntityRanges = []\<rparr>"

definition unstyledBlock :: "string \<Rightarrow> Block" where
  "unstyledBlock t =
     \<lparr>Key = [], Text = t, Type = ''unstyled'', InlineStyleRanges = [], EntityRanges = []\<rparr>"

definition entityOfType :: "string \<Rightarrow> EntityValue" where
  "entityOfType ty =
     \<lparr>evType = ty, Mutability = [], Data = \<lparr>EntityKey = [], MediaItems = [], URL = []\<rparr>\<rparr>"

definition atomicBlock :: "int list \<Rightarrow> Block" where
  "atomicBlock keys =
     \<lparr>Key = [], Text = [], Type = ''atomic'', InlineStyleRanges = [],
      EntityRanges = map (\<lambda>k. \<lparr>erKey = k, erOffset = 0, erLength = 1\<rparr>) keys\<rparr>"

definition mediaEntity :: "string \<Rightarrow> string option \<Rightarrow> ArticleMedia" where
  "mediaEntity k url =
     \<lparr>ID = [], MediaKey = [], MediaID = k,
      MediaInfo =
        (case url of
           None \<Rightarrow> None
         | Some u \<Rightarrow>
             Some \<lparr>TypeName = [], OriginalImgURL = u, OriginalImgWidth = 0,
                   OriginalImgHeight = 0\<rparr>)\<rparr>"

text \<open>The entities that the ranges of a block resolve to, in the order of the ranges.\<close>

definition resolvedEntities ::
  "EntityRange list \<Rightarrow> (int \<rightharpoonup> EntityValue) \<Rightarrow> EntityValue list" where
  "resolvedEntities ers entityLookup = List.map_filter (\<lambda>er. entityLookup (erKey er)) ers"

text \<open>
  The entity resolver as the specification words it: the first range whose key resolves
  decides the fragment, and an entity of any other type gives the empty fragment.
\<close>

definition renderAtomicBlock_spec ::
  "Block \<Rightarrow> (int \<rightharpoonup> EntityValue) \<Rightarrow> (string \<rightharpoonup> string) \<Rightarrow> string" where
  "renderAtomicBlock_spec block entityLookup mediaLookup =
     (case resolvedEntities (EntityRanges block) entityLookup of
        [] \<Rightarrow> []
      | entity # _ \<Rightarrow>
          if evType entity = ''MEDIA'' then renderMediaEntity entity mediaLookup
          else if evType entity = ''DIVIDER'' then ''---''
          else [])"

text \<open>An entry is entered into the media lookup when it has media info with a non-empty
  image URL.\<close>

definition hasImage :: "ArticleMedia \<Rightarrow> bool" where
  "hasImage e = (case MediaInfo e of None \<Rightarrow> False | Some info \<Rightarrow> OriginalImgURL info \<noteq> [])"

definition imageURL :: "ArticleMedia \<Rightarrow> string option" where
  "imageURL e = (case MediaInfo e of None \<Rightarrow> None | Some info \<Rightarrow> Some (OriginalImgURL info))"

text \<open>The media lookup as the specification words it: an id maps to the image URL of the
  last entry of the list that bears it.\<close>

definition lastEntryURL_spec :: "ArticleMedia list \<Rightarrow> string \<Rightarrow> string option" where
  "lastEntryURL_spec entities k =
     (let bearing = filter (\<lambda>e. MediaID e = k) entities
      in if bearing = [] then None else imageURL (last bearing))"

section \<open>Results on inline styles\<close>

text \<open>
  The comparison closure is a strict weak order, so the insertion sort leaves the events
  sorted by it. The lemmas on the sweep ask only for a list sorted by position: they hold
  for whatever order \<^verbatim>\<open>sort.Slice\<close> gives to events that compare equal.
\<close>

lemma mset_bubble: "mset (bubble x ys) = add_mset x (mset ys)"
  by (induction ys) auto





lemma foldl_bubble_mset: "mset (foldl (\<lambda>acc x. bubble x acc) acc evs) = mset acc + mset evs"
  by (induction evs arbitrary: acc) (auto simp: mset_bubble)


lemma mset_sortSlice: "mset (sortSlice evs) = mset evs"
  by (simp add: sortSlice_def foldl_bubble_mset)

lemma set_sortSlice: "set (sortSlice evs) = set evs"
  by (metis mset_sortSlice set_mset_mset)



lemma emitEvents_eq:
  "emitEvents p es =
     (concat (markers (takeWhile (\<lambda>e. pos e = p) es)), dropWhile (\<lambda>e. pos e = p) es)"
  by (induction es) (auto simp: markers_def)

lemma inserted_front: "inserted ms t out \<Longrightarrow> inserted (ms0 @ ms) t (concat ms0 @ out)"
  by (induction ms0) (auto intro: inserted.intros)

lemma inserted_only_markers: "inserted ms [] (concat ms)"
  using inserted_front [OF inserted_end, of ms] by simp

lemma inserted_refl: "inserted [] t t"
  by (induction t) (auto intro: inserted.intros)


lemma sweep_inserted_prefix:
  "\<exists>k. inserted (markers (take k es)) t (sweep p es t)"
proof (induction t arbitrary: p es)
  case Nil
  have "inserted (markers (take (length (takeWhile (\<lambda>e. pos e = p) es)) es)) [] (sweep p es [])"
    by (simp add: emitEvents_eq inserted_only_markers takeWhile_eq_take [symmetric])
  then show ?case by blast
next
  case (Cons c cs)
  let ?tw = "takeWhile (\<lambda>e. pos e = p) es" and ?dw = "dropWhile (\<lambda>e. pos e = p) es"
  from Cons.IH [where p = "p + 1" and es = ?dw] obtain k
    where k: "inserted (markers (take k ?dw)) cs (sweep (p + 1) ?dw cs)" by blast
  have "inserted (markers ?tw @ markers (take k ?dw)) (c # cs)
          (concat (markers ?tw) @ c # sweep (p + 1) ?dw cs)"
    by (rule inserted_front [OF inserted_rune [OF k]])
  moreover have "?tw @ take k ?dw = take (length ?tw + k) es"
    by (metis append_eq_conv_conj take_add takeWhile_dropWhile_id)
  ultimately have "inserted (markers (take (length ?tw + k) es)) (c # cs) (sweep p es (c # cs))"
    by (simp add: emitEvents_eq markers_def flip: map_append)
  then show ?case by blast
qed







text \<open>
  For every text and every list of style ranges, well-formed or not, the result is the
  text with markers put in: deleting what was put in gives the text back. What is put in
  is an initial part of the markers of the sorted events.
\<close>

lemma applyInlineStyles_text_kept:
  "\<exists>ms. inserted ms t (applyInlineStyles t styles)
        \<and> prefix ms (markers (sortSlice (collectEvents (int (length t)) styles)))"
proof (cases "styles = []")
  case True
  then show ?thesis
    by (auto simp: applyInlineStyles_def sortSlice_def markers_def inserted_refl)
next
  case False
  let ?evs = "sortSlice (collectEvents (int (length t)) styles)"
  have out: "applyInlineStyles t styles = sweep 0 ?evs t"
    using False by (simp add: applyInlineStyles_def)
  obtain k where "inserted (markers (take k ?evs)) t (sweep 0 ?evs t)"
    using sweep_inserted_prefix by blast
  moreover have "prefix (markers (take k ?evs)) (markers ?evs)"
    by (simp add: markers_def take_is_prefix flip: take_map)
  ultimately show ?thesis
    unfolding out by blast
qed





text \<open>
  C2. The claim: style ranges outside \<open>0 \<le> offset\<close>, \<open>offset + length \<le> N\<close> are clamped
  into \<open>[0, N]\<close>, open and close boundary alike, and every marker of every other range is
  still written. The code clamps only an end beyond \<open>N\<close>. An event at a negative position
  is sorted first and never equals the position of the sweep, which starts at 0: no marker
  is written at all, neither of that range nor of any other. An open event beyond \<open>N\<close> is
  never reached, while its close event, clamped to \<open>N\<close>, is written.
\<close>

theorem applyInlineStyles_offset_out_of_range:
  "applyInlineStyles ''abcd''
     [\<lparr>Offset = - 1, Length = 2, Style = ''Bold''\<rparr>, \<lparr>Offset = 1, Length = 2, Style = ''Italic''\<rparr>]
     = ''abcd''
   \<and> applyInlineStyles ''abcd''
     [\<lparr>Offset = 6, Length = 2, Style = ''Bold''\<rparr>, \<lparr>Offset = 1, Length = 2, Style = ''Italic''\<rparr>]
     = ''a*bc*d**''"
  by (simp add: applyInlineStyles_def sortSlice_def eventLess_def styleMarker_def)

section \<open>Results on entities and media\<close>

lemma scanEntityRanges_eq:
  "scanEntityRanges ers el ml =
     (case find (\<lambda>e. evType e = ''MEDIA'' \<or> evType e = ''DIVIDER'') (resolvedEntities ers el) of
        None \<Rightarrow> []
      | Some e \<Rightarrow> if evType e = ''MEDIA'' then renderMediaEntity e ml else ''---'')"
  by (induction ers) (auto simp: resolvedEntities_def List.map_filter_simps split: option.splits)

text \<open>
  C3, as amended. \<^verbatim>\<open>renderAtomicBlock\<close> scans the entity ranges of the block in their
  order and goes on to the next range when the key of the current one does not resolve or
  resolves to an entity that is neither MEDIA nor DIVIDER. The first range that resolves
  to a MEDIA or a DIVIDER entity ends the scan and alone decides the fragment, a MEDIA
  entity also when none of its media references is in the media lookup (the fragment is
  then empty). When there is no such range the fragment is empty.
\<close>

theorem renderAtomicBlock_first_media_or_divider:
  "renderAtomicBlock block el ml =
     (case find (\<lambda>e. evType e = ''MEDIA'' \<or> evType e = ''DIVIDER'')
             (resolvedEntities (EntityRanges block) el) of
        None \<Rightarrow> []
      | Some e \<Rightarrow> if evType e = ''MEDIA'' then renderMediaEntity e ml else ''---'')"
  by (simp add: renderAtomicBlock_def scanEntityRanges_eq)

text \<open>
  The claim as it was stated fails: with the ranges of keys 0 and 1, key 0 resolving to a
  LINK entity and key 1 to a DIVIDER, the scan does not end at key 0 and the block renders
  as the thematic break.
\<close>

theorem renderAtomicBlock_scans_past_other_types:
  "renderAtomicBlock (atomicBlock [0, 1])
     (map_of [(0, entityOfType ''LINK''), (1, entityOfType ''DIVIDER'')]) Map.empty = ''---''
   \<and> renderAtomicBlock_spec (atomicBlock [0, 1])
     (map_of [(0, entityOfType ''LINK''), (1, entityOfType ''DIVIDER'')]) Map.empty = []"
  by (simp add: renderAtomicBlock_def renderAtomicBlock_spec_def atomicBlock_def entityOfType_def
      resolvedEntities_def List.map_filter_simps)

lemma buildMediaLookup_from_eq:
  "buildMediaLookup_from lookup es k =
     (let usable = filter (\<lambda>e. MediaID e = k \<and> hasImage e) es
      in if usable = [] then lookup k else imageURL (last usable))"
  by (induction es arbitrary: lookup)
     (auto simp: Let_def hasImage_def imageURL_def split: option.splits)

text \<open>
  C7, as amended. \<^verbatim>\<open>buildMediaLookup\<close> inserts into a map in list order, and only the
  entries that have media info with a non-empty image URL: a media id maps to the image
  URL of the last such entry bearing it, and an id with no such entry is not in the
  lookup.
\<close>

theorem buildMediaLookup_last_usable:
  "buildMediaLookup es k =
     (let usable = filter (\<lambda>e. MediaID e = k \<and> hasImage e) es
      in if usable = [] then None else imageURL (last usable))"
  by (simp add: buildMediaLookup_def buildMediaLookup_from_eq)

text \<open>
  The claim as it was stated fails: an entry with an empty image URL after one with the
  same id does not overwrite it, and an id whose only entry has no media info is not in
  the lookup.
\<close>

theorem buildMediaLookup_skips_entries_without_image:
  "buildMediaLookup [mediaEntity ''m'' (Some ''u1''), mediaEntity ''m'' (Some [])] ''m'' = Some ''u1''
   \<and> lastEntryURL_spec [mediaEntity ''m'' (Some ''u1''), mediaEntity ''m'' (Some [])] ''m'' = Some []
   \<and> buildMediaLookup [mediaEntity ''m'' None] ''m'' = None
   \<and> ''m'' \<in> MediaID ` set [mediaEntity ''m'' None]"
  by (simp add: buildMediaLookup_def lastEntryURL_spec_def mediaEntity_def imageURL_def)

section \<open>Results on the block renderer\<close>

lemma renderBlock_counter:
  "snd (renderBlock el ml st b) = (if isOrderedItem b then snd st + 1 else 0)"
  by (simp add: renderBlock_def isOrderedItem_def Let_def)

lemma renderBlock_ordered:
  "isOrderedItem b \<Longrightarrow> renderBlock el ml st b =
     (fst st @ [itoa (snd st + 1) @ ''. '' @ applyInlineStyles (Text b) (InlineStyleRanges b)], snd st + 1)"
  by (simp add: renderBlock_def isOrderedItem_def Let_def)

lemma foldl_renderBlock_counter:
  "snd (foldl (renderBlock el ml) st bs) =
     (if list_all isOrderedItem bs then snd st + int (length bs)
      else int (length (takeWhile isOrderedItem (rev bs))))"
proof (induction bs rule: rev_induct)
  case Nil
  then show ?case by simp
next
  case (snoc b bs)
  then show ?case
    by (auto simp: renderBlock_counter takeWhile_eq_all_conv list_all_iff)
qed

lemma renderBlocks_counter:
  "snd (renderBlocks el ml bs) = int (length (takeWhile isOrderedItem (rev bs)))"
proof (cases "list_all isOrderedItem bs")
  case True
  then have tw: "takeWhile isOrderedItem (rev bs) = rev bs"
    by (simp add: takeWhile_eq_all_conv list_all_iff)
  have "length (takeWhile isOrderedItem (rev bs)) = length bs"
    unfolding tw by simp
  with True show ?thesis
    by (simp add: renderBlocks_def foldl_renderBlock_counter)
next
  case False
  then show ?thesis
    by (simp add: renderBlocks_def foldl_renderBlock_counter)
qed

text \<open>
  C6. Over every sequence of blocks the ordered-list counter is the number of
  ordered-list-item blocks that end the sequence read so far: every other block resets it
  to 0, an ordered-list-item block adds 1 and is numbered with the new value, one plus the
  number of ordered-list-item blocks just before it. Two ordered items, an unstyled block
  and two ordered items are numbered 1, 2 and 1, 2.
\<close>

theorem ordered_list_counter:
  "snd (renderBlocks el ml bs) = int (length (takeWhile isOrderedItem (rev bs)))
   \<and> (isOrderedItem b \<longrightarrow>
        renderBlocks el ml (bs @ [b]) =
          (fst (renderBlocks el ml bs)
             @ [itoa (1 + int (length (takeWhile isOrderedItem (rev bs)))) @ ''. ''
                  @ applyInlineStyles (Text b) (InlineStyleRanges b)],
           1 + int (length (takeWhile isOrderedItem (rev bs)))))
   \<and> (\<not> isOrderedItem b \<longrightarrow> snd (renderBlocks el ml (bs @ [b])) = 0)
   \<and> DraftJSToMarkdown
         (Some \<lparr>Blocks = [orderedItem ''a'', orderedItem ''b'', unstyledBlock ''x'',
                          orderedItem ''c'', orderedItem ''d''],
                EntityMap = []\<rparr>) []
       = ''1. a\<newline>\<newline>2. b\<newline>\<newline>x\<newline>\<newline>1. c\<newline>\<newline>2. d''"
proof (intro conjI impI)
  show c: "snd (renderBlocks el ml bs) = int (length (takeWhile isOrderedItem (rev bs)))"
    by (rule renderBlocks_counter)
  show "renderBlocks el ml (bs @ [b]) =
          (fst (renderBlocks el ml bs)
             @ [itoa (1 + int (length (takeWhile isOrderedItem (rev bs)))) @ ''. ''
                  @ applyInlineStyles (Text b) (InlineStyleRanges b)],
           1 + int (length (takeWhile isOrderedItem (rev bs))))" if "isOrderedItem b"
    using that c by (simp add: renderBlocks_def renderBlock_ordered add.commute)
  show "snd (renderBlocks el ml (bs @ [b])) = 0" if "\<not> isOrderedItem b"
    using that by (simp add: renderBlocks_def renderBlock_counter)
  show "DraftJSToMarkdown
         (Some \<lparr>Blocks = [orderedItem ''a'', orderedItem ''b'', unstyledBlock ''x'',
                          orderedItem ''c'', orderedItem ''d''],
                EntityMap = []\<rparr>) []
       = ''1. a\<newline>\<newline>2. b\<newline>\<newline>x\<newline>\<newline>1. c\<newline>\<newline>2. d''"
    by (simp add: DraftJSToMarkdown_def renderBlocks_def renderBlock_def orderedItem_def
        unstyledBlock_def applyInlineStyles_def TrimSpace_def isSpace_def itoa_def)
qed

theorem ordered_list_counter_witness:
  "isOrderedItem (orderedItem ''b'')
   \<and> renderBlocks Map.empty Map.empty ([orderedItem ''a''] @ [orderedItem ''b'']) = ([''1. a'', ''2. b''], 2)
   \<and> \<not> isOrderedItem (unstyledBlock ''x'')
   \<and> snd (renderBlocks Map.empty Map.empty ([orderedItem ''a''] @ [unstyledBlock ''x''])) = 0"
  using ordered_list_counter [of Map.empty Map.empty "[orderedItem ''a'']" "orderedItem ''b''"]
    ordered_list_counter [of Map.empty Map.empty "[orderedItem ''a'']" "unstyledBlock ''x''"]
  by (simp add: isOrderedItem_def orderedItem_def unstyledBlock_def renderBlocks_def
      renderBlock_def applyInlineStyles_def itoa_def)
text \<open>
  C10. \<^verbatim>\<open>DraftJSToMarkdown\<close> returns the empty string when the content is nil, and when
  its block list is empty, whatever the entity map and the media entities hold.
\<close>

theorem DraftJSToMarkdown_empty:
  "DraftJSToMarkdown None mediaEntities = []
   \<and> DraftJSToMarkdown (Some \<lparr>Blocks = [], EntityMap = entityMap\<rparr>) mediaEntities = []"
  by (simp add: DraftJSToMarkdown_def)

section \<open>Results on entity-map keys\<close>

text \<open>
  A bare integer and the same integer in a string decode to the same key, and a string
  that is not a number is refused. For every input but the JSON null an error is returned
  exactly when the input is neither a number whose literal \<^verbatim>\<open>ParseInt\<close> accepts nor a
  string that \<^verbatim>\<open>Atoi\<close> accepts.
\<close>

lemma UnmarshalJSON_examples:
  "UnmarshalJSON (JNumber ''3'') = Inr 3
   \<and> UnmarshalJSON (JString ''3'') = Inr 3
   \<and> UnmarshalJSON (JString ''abc'') = Inl (CannotParse ''abc'')
   \<and> UnmarshalJSON (JBool True) = Inl (CannotUnmarshal (JBool True))"
  by (simp add: UnmarshalJSON_def Atoi_def ParseInt_def digitValue_def)

lemma UnmarshalJSON_error_iff:
  assumes "data \<noteq> JNull"
  shows "(\<exists>e. UnmarshalJSON data = Inl e) \<longleftrightarrow>
         (\<forall>lit. data = JNumber lit \<longrightarrow> ParseInt lit = None)
         \<and> (\<forall>s. data = JString s \<longrightarrow> Atoi s = None)"
  using assms by (cases data) (auto simp: UnmarshalJSON_def split: option.splits)

text \<open>
  C8. The claim: decoding returns an error, and assigns nothing, exactly when the input
  is neither a valid integer nor a numeric string. On the JSON null, which is neither, the
  first \<^verbatim>\<open>json.Unmarshal\<close> returns no error and leaves \<^verbatim>\<open>intVal\<close> at 0, so the key is
  assigned 0 and nil is returned.
\<close>

theorem UnmarshalJSON_null:
  "UnmarshalJSON JNull = Inr 0"
  by (simp add: UnmarshalJSON_def)

section \<open>Results on the HTML pipeline\<close>

text \<open>
  The pipeline is run pass by pass on the input; \<open>unescapeEntity\<close> is never called, since
  no text on the way holds an ampersand.
\<close>

text \<open>
  C9. For the input \<^verbatim>\<open><h2>Title</h2><p>Some <b>bold</b> and <i>italic</i>.</p>\<close> the output
  is the heading line \<^verbatim>\<open>## Title\<close>, one blank line, and the line
  \<^verbatim>\<open>Some **bold** and *italic*.\<close>
\<close>

theorem HTMLToMarkdown_heading_paragraph:
  "HTMLToMarkdown unescapeEntity ''<h2>Title</h2><p>Some <b>bold</b> and <i>italic</i>.</p>'' = Some ''## Title\<newline>\<newline>Some **bold** and *italic*.''"
proof -
  let ?s0 = "''<h2>Title</h2><p>Some <b>bold</b> and <i>italic</i>.</p>''"
  let ?s1 = "''\<newline>\<newline>## Title\<newline>\<newline><p>Some <b>bold</b> and <i>italic</i>.</p>''"
  let ?s2 = "''\<newline>\<newline>## Title\<newline>\<newline>\<newline>\<newline>Some <b>bold</b> and <i>italic</i>.\<newline>\<newline>''"
  let ?s3 = "''\<newline>\<newline>## Title\<newline>\<newline>\<newline>\<newline>Some **bold** and <i>italic</i>.\<newline>\<newline>''"
  let ?s4 = "''\<newline>\<newline>## Title\<newline>\<newline>\<newline>\<newline>Some **bold** and *italic*.\<newline>\<newline>''"
  let ?s5 = "''\<newline>\<newline>## Title\<newline>\<newline>Some **bold** and *italic*.\<newline>\<newline>''"
  let ?s6 = "''## Title\<newline>\<newline>Some **bold** and *italic*.''"
  have p1: "ReplaceAll ?s0 [CHR 0x0D, CHR 0x0A] NL = ?s0"
    by code_simp
  have p2: "ReplaceAll ?s0 [CHR 0x0D] NL = ?s0"
    by code_simp
  have p3: "processPreBlocks unescapeEntity ?s0 = Some ?s0"
    by code_simp
  have p4: "processHeadings ?s0 = Some ?s1"
    by code_simp
  have p5: "processBlockquotes ?s1 = Some ?s1"
    by code_simp
  have p6: "processLists ?s1 = Some ?s1"
    by code_simp
  have p7: "processParagraphs ?s1 = ?s2"
    by code_simp
  have p8: "processHorizontalRules ?s2 = ?s2"
    by code_simp
  have p9: "processLinks ?s2 = Some ?s2"
    by code_simp
  have p10: "processImages ?s2 = Some ?s2"
    by code_simp
  have p11: "processBold ?s2 = ?s3"
    by code_simp
  have p12: "processItalic ?s3 = ?s4"
    by code_simp
  have p13: "processInlineCode ?s4 = ?s4"
    by code_simp
  have p14: "processLineBreaks ?s4 = ?s4"
    by code_simp
  have p15: "stripTags ?s4 = ?s4"
    by code_simp
  have p16: "UnescapeString unescapeEntity ?s4 = ?s4"
    by code_simp
  have p17: "cleanWhitespace ?s4 = ?s5"
    by code_simp
  have p18: "TrimSpace ?s5 = ?s6"
    by code_simp
  show ?thesis
    by (simp only: HTMLToMarkdown_def Let_def Option.bind.bind_lunit
        p1 p2 p3 p4 p5 p6 p7 p8 p9 p10 p11 p12 p13 p14 p15 p16 p17 p18)
qed

lemma HTMLToMarkdown_pre_blank_lines:
  "HTMLToMarkdown unescapeEntity ''<pre>a\<newline>\<newline>\<newline>\<newline>b</pre>'' = Some ''```\<newline>a\<newline>\<newline>b\<newline>```''"
proof -
  let ?s0 = "''<pre>a\<newline>\<newline>\<newline>\<newline>b</pre>''"
  let ?s1 = "''\<newline>\<newline>```\<newline>a\<newline>\<newline>\<newline>\<newline>b\<newline>```\<newline>\<newline>''"
  let ?s2 = "''\<newline>\<newline>```\<newline>a\<newline>\<newline>b\<newline>```\<newline>\<newline>''"
  let ?s3 = "''```\<newline>a\<newline>\<newline>b\<newline>```''"
  have p1: "ReplaceAll ?s0 [CHR 0x0D, CHR 0x0A] NL = ?s0"
    by code_simp
  have p2: "ReplaceAll ?s0 [CHR 0x0D] NL = ?s0"
    by code_simp
  have p3: "processPreBlocks unescapeEntity ?s0 = Some ?s1"
    by code_simp
  have p4: "processHeadings ?s1 = Some ?s1"
    by code_simp
  have p5: "processBlockquotes ?s1 = Some ?s1"
    by code_simp
  have p6: "processLists ?s1 = Some ?s1"
    by code_simp
  have p7: "processParagraphs ?s1 = ?s1"
    by code_simp
  have p8: "processHorizontalRules ?s1 = ?s1"
    by code_simp
  have p9: "processLinks ?s1 = Some ?s1"
    by code_simp
  have p10: "processImages ?s1 = Some ?s1"
    by code_simp
  have p11: "processBold ?s1 = ?s1"
    by code_simp
  have p12: "processItalic ?s1 = ?s1"
    by code_simp
  have p13: "processInlineCode ?s1 = ?s1"
    by code_simp
  have p14: "processLineBreaks ?s1 = ?s1"
    by code_simp
  have p15: "stripTags ?s1 = ?s1"
    by code_simp
  have p16: "UnescapeString unescapeEntity ?s1 = ?s1"
    by code_simp
  have p17: "cleanWhitespace ?s1 = ?s2"
    by code_simp
  have p18: "TrimSpace ?s2 = ?s3"
    by code_simp
  show ?thesis
    by (simp only: HTMLToMarkdown_def Let_def Option.bind.bind_lunit
        p1 p2 p3 p4 p5 p6 p7 p8 p9 p10 p11 p12 p13 p14 p15 p16 p17 p18)
qed

lemma HTMLToMarkdown_pre_angle_bracket:
  "HTMLToMarkdown unescapeEntity ''<pre>a < b</pre> c > d'' = Some ''```\<newline>a  d''"
proof -
  let ?s0 = "''<pre>a < b</pre> c > d''"
  let ?s1 = "''\<newline>\<newline>```\<newline>a < b\<newline>```\<newline>\<newline> c > d''"
  let ?s2 = "''\<newline>\<newline>```\<newline>a  d''"
  let ?s3 = "''```\<newline>a  d''"
  have p1: "ReplaceAll ?s0 [CHR 0x0D, CHR 0x0A] NL = ?s0"
    by code_simp
  have p2: "ReplaceAll ?s0 [CHR 0x0D] NL = ?s0"
    by code_simp
  have p3: "processPreBlocks unescapeEntity ?s0 = Some ?s1"
    by code_simp
  have p4: "processHeadings ?s1 = Some ?s1"
    by code_simp
  have p5: "processBlockquotes ?s1 = Some ?s1"
    by code_simp
  have p6: "processLists ?s1 = Some ?s1"
    by code_simp
  have p7: "processParagraphs ?s1 = ?s1"
    by code_simp
  have p8: "processHorizontalRules ?s1 = ?s1"
    by code_simp
  have p9: "processLinks ?s1 = Some ?s1"
    by code_simp
  have p10: "processImages ?s1 = Some ?s1"
    by code_simp
  have p11: "processBold ?s1 = ?s1"
    by code_simp
  have p12: "processItalic ?s1 = ?s1"
    by code_simp
  have p13: "processInlineCode ?s1 = ?s1"
    by code_simp
  have p14: "processLineBreaks ?s1 = ?s1"
    by code_simp
  have p15: "stripTags ?s1 = ?s2"
    by code_simp
  have p16: "UnescapeString unescapeEntity ?s2 = ?s2"
    by code_simp
  have p17: "cleanWhitespace ?s2 = ?s2"
    by code_simp
  have p18: "TrimSpace ?s2 = ?s3"
    by code_simp
  show ?thesis
    by (simp only: HTMLToMarkdown_def Let_def Option.bind.bind_lunit
        p1 p2 p3 p4 p5 p6 p7 p8 p9 p10 p11 p12 p13 p14 p15 p16 p17 p18)
qed

lemma processPreBlocks_emits:
  "processPreBlocks unescapeEntity ''<pre>a\<newline>\<newline>\<newline>\<newline>b</pre>''
     = Some ''\<newline>\<newline>```\<newline>a\<newline>\<newline>\<newline>\<newline>b\<newline>```\<newline>\<newline>''
   \<and> processPreBlocks unescapeEntity ''<pre>a < b</pre> c > d''
     = Some ''\<newline>\<newline>```\<newline>a < b\<newline>```\<newline>\<newline> c > d''"
  by code_simp

text \<open>
  C1. The claim: what the pre/code pass puts inside a fenced code block reaches the output
  unchanged by tag stripping, entity decoding and whitespace normalisation. The later
  passes run over the whole text, the fenced block included. Four newlines inside a pre
  region are written into the fence by the pre/code pass and collapsed to two by the
  whitespace pass. An angle bracket inside a pre region is written into the fence, and
  with a closing angle bracket later in the text the tag-stripping pass deletes everything
  between them, the closing fence included.
\<close>

theorem pre_content_changed_by_later_passes:
  "processPreBlocks unescapeEntity ''<pre>a\<newline>\<newline>\<newline>\<newline>b</pre>''
     = Some ''\<newline>\<newline>```\<newline>a\<newline>\<newline>\<newline>\<newline>b\<newline>```\<newline>\<newline>''
   \<and> HTMLToMarkdown unescapeEntity ''<pre>a\<newline>\<newline>\<newline>\<newline>b</pre>''
     = Some ''```\<newline>a\<newline>\<newline>b\<newline>```''
   \<and> processPreBlocks unescapeEntity ''<pre>a < b</pre> c > d''
     = Some ''\<newline>\<newline>```\<newline>a < b\<newline>```\<newline>\<newline> c > d''
   \<and> HTMLToMarkdown unescapeEntity ''<pre>a < b</pre> c > d'' = Some ''```\<newline>a  d''"
  using processPreBlocks_emits [of unescapeEntity]
    HTMLToMarkdown_pre_blank_lines [of unescapeEntity]
    HTMLToMarkdown_pre_angle_bracket [of unescapeEntity]
  by blast

end
